theory Spec2Isabelle
  imports Complex_Main
begin

section \<open>JavaScript strings\<close>

text \<open>
  A JavaScript string is a sequence of UTF-16 code units. The frontend functions below
  compare strings for equality, strip white space and read digits, so a string is modelled
  as the list of its code units, each a natural number. \<open>js\<close> turns an ASCII literal into
  such a list.
\<close>

type_synonym jsstring = "nat list"

definition js :: "string \<Rightarrow> jsstring" where
  "js s = map of_char s"

text \<open>
  White space as \<open>String.prototype.trim\<close> and \<open>parseInt\<close> see it (ECMAScript
  \<open>WhiteSpace\<close> and \<open>LineTerminator\<close>): TAB, LF, VT, FF, CR, SP, NBSP, U+1680,
  U+2000 to U+200A, U+2028, U+2029, U+202F, U+205F, U+3000 and U+FEFF.
\<close>

definition isStrWhiteSpaceChar :: "nat \<Rightarrow> bool" where
  "isStrWhiteSpaceChar c =
     (c = 9 \<or> c = 10 \<or> c = 11 \<or> c = 12 \<or> c = 13 \<or> c = 32 \<or> c = 160 \<or> c = 5760 \<or>
      (8192 \<le> c \<and> c \<le> 8202) \<or> c = 8232 \<or> c = 8233 \<or> c = 8239 \<or> c = 8287 \<or>
      c = 12288 \<or> c = 65279)"

definition trim :: "jsstring \<Rightarrow> jsstring" where
  "trim s = rev (dropWhile isStrWhiteSpaceChar (rev (dropWhile isStrWhiteSpaceChar s)))"

text \<open>
  \<open>String.prototype.toUpperCase\<close> is a library function that follows the Unicode case
  tables. The functions that call it take it as the parameter \<open>toUpperCase\<close>;
  \<open>toUpperCaseASCII\<close> is what it does on ASCII strings.
\<close>

definition toUpperCaseASCII :: "jsstring \<Rightarrow> jsstring" where
  "toUpperCaseASCII s = map (\<lambda>c. if 97 \<le> c \<and> c \<le> 122 then c - 32 else c) s"

text \<open>
  An optional string (\<open>string | undefined\<close>) is a \<open>jsstring option\<close>. It is falsy when it
  is \<open>undefined\<close> or the empty string; \<open>a || b\<close> with a string \<open>b\<close> is \<open>orElse a b\<close>.
\<close>

definition orElse :: "jsstring option \<Rightarrow> jsstring \<Rightarrow> jsstring" where
  "orElse a b = (case a of None \<Rightarrow> b | Some s \<Rightarrow> if s = [] then b else s)"

section \<open>frontend/src/utils/index.ts\<close>

subsection \<open>Colour mappings\<close>

definition getPositionColor :: "(jsstring \<Rightarrow> jsstring) \<Rightarrow> jsstring \<Rightarrow> jsstring" where
  "getPositionColor toUpperCase position =
     (let p = toUpperCase position in
      if p = js ''QB'' then js ''text-red-600 bg-red-100''
      else if p = js ''RB'' then js ''text-green-600 bg-green-100''
      else if p = js ''WR'' then js ''text-blue-600 bg-blue-100''
      else if p = js ''TE'' then js ''text-yellow-600 bg-yellow-100''
      else if p = js ''K'' then js ''text-purple-600 bg-purple-100''
      else if p = js ''D/ST'' \<or> p = js ''DST'' then js ''text-gray-600 bg-gray-100''
      else js ''text-gray-600 bg-gray-100'')"

definition getInjuryStatusColor :: "(jsstring \<Rightarrow> jsstring) \<Rightarrow> jsstring option \<Rightarrow> jsstring" where
  "getInjuryStatusColor toUpperCase status =
     (case status of
        None \<Rightarrow> js ''text-green-600''
      | Some st \<Rightarrow>
          if st = [] \<or> st = js ''ACTIVE'' then js ''text-green-600''
          else
            (let s = toUpperCase st in
             if s = js ''QUESTIONABLE'' then js ''text-yellow-600''
             else if s = js ''DOUBTFUL'' then js ''text-orange-600''
             else if s = js ''OUT'' \<or> s = js ''IR'' then js ''text-red-600''
             else js ''text-gray-600''))"

text \<open>The case labels of the two \<open>switch\<close> statements.\<close>

definition positionCases :: "jsstring list" where
  "positionCases = [js ''QB'', js ''RB'', js ''WR'', js ''TE'', js ''K'', js ''D/ST'', js ''DST'']"

definition injuryStatusCases :: "jsstring list" where
  "injuryStatusCases = [js ''QUESTIONABLE'', js ''DOUBTFUL'', js ''OUT'', js ''IR'']"

text \<open>The values the two functions can return; the last of each list is the default.\<close>

definition positionColors :: "jsstring list" where
  "positionColors =
     [js ''text-red-600 bg-red-100'', js ''text-green-600 bg-green-100'',
      js ''text-blue-600 bg-blue-100'', js ''text-yellow-600 bg-yellow-100'',
      js ''text-purple-600 bg-purple-100'', js ''text-gray-600 bg-gray-100'']"

definition injuryStatusColors :: "jsstring list" where
  "injuryStatusColors =
     [js ''text-green-600'', js ''text-yellow-600'', js ''text-orange-600'',
      js ''text-red-600'', js ''text-gray-600'']"

text \<open>The slot colours of \<open>frontend/src/pages/TeamRosterPage.tsx\<close>.\<close>

definition getSlotColor :: "jsstring \<Rightarrow> jsstring" where
  "getSlotColor slot =
     (if slot = js ''BENCH'' then js ''bg-gray-100 text-gray-600''
      else if slot = js ''IR'' then js ''bg-red-100 text-red-600''
      else js ''bg-green-100 text-green-700'')"

subsection \<open>Winning percentage\<close>

text \<open>
  JavaScript numbers are IEEE doubles; \<open>getWinPercentage\<close> is modelled over the real
  numbers, which is what the doubles compute for game counts of any realistic size.
\<close>

definition getWinPercentage :: "real \<Rightarrow> real \<Rightarrow> real \<Rightarrow> real" where
  "getWinPercentage wins losses ties =
     (let totalGames = wins + losses + ties in
      if totalGames = 0 then 0
      else ((wins + ties * 0.5) / totalGames) * 100)"

subsection \<open>League id validation\<close>

text \<open>
  \<open>parseInt(string)\<close> with no radix, after ECMAScript 19.2.5: strip leading white space,
  read one optional sign, switch to radix 16 after a \<open>0x\<close> or \<open>0X\<close> prefix, take the
  longest run of digits of the radix, and return NaN when that run is empty. NaN is
  \<open>None\<close>. A finite result is the mathematical integer: rounding it to a double keeps its
  sign and keeps zero apart from the positive numbers, which is all the caller looks at.
\<close>

definition digitValue :: "nat \<Rightarrow> nat option" where
  "digitValue c =
     (if 48 \<le> c \<and> c \<le> 57 then Some (c - 48)
      else if 97 \<le> c \<and> c \<le> 122 then Some (c - 87)
      else if 65 \<le> c \<and> c \<le> 90 then Some (c - 55)
      else None)"

definition isRadixDigit :: "nat \<Rightarrow> nat \<Rightarrow> bool" where
  "isRadixDigit R c = (case digitValue c of Some d \<Rightarrow> d < R | None \<Rightarrow> False)"

definition digitOf :: "nat \<Rightarrow> nat" where
  "digitOf c = (case digitValue c of Some d \<Rightarrow> d | None \<Rightarrow> 0)"

definition radixValue :: "nat \<Rightarrow> jsstring \<Rightarrow> nat" where
  "radixValue R Z = foldl (\<lambda>acc c. acc * R + digitOf c) 0 Z"

definition skipWhiteSpaceAndSign :: "jsstring \<Rightarrow> jsstring" where
  "skipWhiteSpaceAndSign inputString =
     (let S = dropWhile isStrWhiteSpaceChar inputString
      in if S \<noteq> [] \<and> (hd S = 43 \<or> hd S = 45) then tl S else S)"

definition parseInt :: "jsstring \<Rightarrow> int option" where
  "parseInt inputString =
     (let S0 = dropWhile isStrWhiteSpaceChar inputString;
          sign = (if S0 \<noteq> [] \<and> hd S0 = 45 then - 1 else 1);
          S1 = skipWhiteSpaceAndSign inputString;
          hex = (take 2 S1 = js ''0x'' \<or> take 2 S1 = js ''0X'');
          R = (if hex then 16 else 10);
          S2 = (if hex then drop 2 S1 else S1);
          Z = takeWhile (isRadixDigit R) S2
      in if Z = [] then None else Some (sign * int (radixValue R Z)))"

definition isNaN :: "int option \<Rightarrow> bool" where
  "isNaN x = (x = None)"

definition isValidESPNLeagueId :: "jsstring \<Rightarrow> bool" where
  "isValidESPNLeagueId leagueId =
     (let id = parseInt leagueId
      in \<not> isNaN id \<and> (case id of Some n \<Rightarrow> n > 0 | None \<Rightarrow> False))"

section \<open>frontend/src/components/matchups/MatchupCard.tsx\<close>

text \<open>
  Modelled from the spec: the declaration of the \<open>Matchup\<close> type is not among the source
  files (\<open>types/index.ts\<close> does not declare it). Its \<open>winner\<close> field is the enum
  \<open>{HOME, AWAY, TIE, UNDECIDED}\<close> of the data model; the other fields are the ones
  \<open>MatchupCard\<close> reads to name the teams and to style the two rows.
\<close>

datatype winner = HOME | AWAY | TIE | UNDECIDED

record Matchup =
  home_team_id :: nat
  away_team_id :: nat
  home_team_name :: "jsstring option"
  home_team_location :: "jsstring option"
  home_team_nickname :: "jsstring option"
  away_team_name :: "jsstring option"
  away_team_location :: "jsstring option"
  away_team_nickname :: "jsstring option"
  winner :: winner

definition homeTeamName :: "Matchup \<Rightarrow> jsstring" where
  "homeTeamName matchup =
     orElse (home_team_name matchup)
       (orElse (Some (trim (orElse (home_team_location matchup) [] @ js '' '' @
                            orElse (home_team_nickname matchup) [])))
          (js ''Team''))"

definition awayTeamName :: "Matchup \<Rightarrow> jsstring" where
  "awayTeamName matchup =
     orElse (away_team_name matchup)
       (orElse (Some (trim (orElse (away_team_location matchup) [] @ js '' '' @
                            orElse (away_team_nickname matchup) [])))
          (js ''Team''))"

text \<open>\<open>userTeamId\<close> is an optional prop: \<open>None\<close> is \<open>undefined\<close>, which equals no team id.\<close>

definition getWinnerStyle :: "Matchup \<Rightarrow> nat option \<Rightarrow> bool \<Rightarrow> jsstring" where
  "getWinnerStyle matchup userTeamId isHome =
     (let isWinner = (winner matchup = (if isHome then HOME else AWAY));
          isUser = (userTeamId = Some (if isHome then home_team_id matchup else away_team_id matchup))
      in if winner matchup = UNDECIDED then []
         else if isWinner then
           (if isUser then js ''bg-green-50 border-green-200'' else js ''bg-blue-50 border-blue-200'')
         else js ''bg-gray-50 border-gray-200 opacity-75'')"

text \<open>
  The result summary block of the card: \<open>None\<close> when the block is not rendered, otherwise
  the class of its \<open>span\<close> and its text.
\<close>

definition resultSummary :: "Matchup \<Rightarrow> (jsstring \<times> jsstring) option" where
  "resultSummary matchup =
     (if winner matchup \<noteq> UNDECIDED then
        Some (js ''text-xs font-medium '' @
                (if winner matchup = TIE then js ''text-yellow-600'' else js ''text-gray-600''),
              if winner matchup = TIE then js ''Tied Game''
              else (if winner matchup = HOME then homeTeamName matchup else awayTeamName matchup)
                   @ js '' Wins'')
      else None)"

text \<open>A matchup that is not scored yet, for running the definitions.\<close>

definition unscoredMatchup :: Matchup where
  "unscoredMatchup =
     \<lparr>home_team_id = 1, away_team_id = 2, home_team_name = None,
      home_team_location = Some (js ''Gotham''), home_team_nickname = Some (js ''Rogues''),
      away_team_name = Some (js ''Team Alpha''), away_team_location = None,
      away_team_nickname = None, winner = UNDECIDED\<rparr>"

section \<open>Waiver budgets\<close>

text \<open>
  Modelled from the spec: the declarations of \<open>WaiverTransaction\<close> and
  \<open>TeamBudgetSummary\<close> are not among the source files. Their fields are the ones that
  \<open>useTeamBudget\<close>, \<open>TransactionBadge\<close> and \<open>WaiverBudgetCard\<close> read; type and status
  range over the values of the data model. Amounts are whole units of the waiver currency.
\<close>

datatype transaction_type = ADD | DROP | TRADE

datatype transaction_status = PENDING | SUCCESSFUL | FAILED

record WaiverTransaction =
  transaction_id :: nat
  player_name :: jsstring
  transaction_type :: transaction_type
  bid_amount :: int
  status :: transaction_status

record TeamBudgetSummary =
  team_id :: nat
  team_name :: jsstring
  current_budget :: int
  spent_budget :: int
  total_budget :: int
  recent_transactions :: "WaiverTransaction list"

subsection \<open>The ledger\<close>

text \<open>
  Modelled from the spec: the ledger itself (the backend behind
  \<open>/leagues/{id}/waiver-budgets\<close>) is not among the source files. Section 4.5 derives the
  budget by folding the team's transaction history: spent is the sum of the bid amounts of
  the transactions with type ADD and status SUCCESSFUL, remaining is total minus spent.
\<close>

record Budget =
  budget_total :: int
  budget_spent :: int
  budget_remaining :: int

definition countsAsSpent :: "WaiverTransaction \<Rightarrow> bool" where
  "countsAsSpent t = (transaction_type t = ADD \<and> status t = SUCCESSFUL)"

definition spentOf :: "WaiverTransaction list \<Rightarrow> int" where
  "spentOf history = foldl (\<lambda>acc t. if countsAsSpent t then acc + bid_amount t else acc) 0 history"

definition currentBudget :: "int \<Rightarrow> WaiverTransaction list \<Rightarrow> Budget" where
  "currentBudget leagueTotal history =
     (let s = spentOf history
      in \<lparr>budget_total = leagueTotal, budget_spent = s, budget_remaining = leagueTotal - s\<rparr>)"

text \<open>
  Modelled from the spec: the record that \<open>getWaiverBudgets\<close> serves for a team, with
  remaining exposed as \<open>current_budget\<close>, spent as \<open>spent_budget\<close> and total as
  \<open>total_budget\<close>. Which transactions it lists as recent is not specified; they are passed
  through.
\<close>

definition teamBudgetSummary ::
  "nat \<Rightarrow> jsstring \<Rightarrow> int \<Rightarrow> WaiverTransaction list \<Rightarrow> WaiverTransaction list
     \<Rightarrow> TeamBudgetSummary" where
  "teamBudgetSummary tid name leagueTotal history recent =
     (let b = currentBudget leagueTotal history
      in \<lparr>team_id = tid, team_name = name, current_budget = budget_remaining b,
          spent_budget = budget_spent b, total_budget = budget_total b,
          recent_transactions = recent\<rparr>)"

text \<open>The identity of the ledger, as a check on a budget record.\<close>

definition balanced :: "TeamBudgetSummary \<Rightarrow> bool" where
  "balanced b = (spent_budget b + current_budget b = total_budget b)"

text \<open>A history with a successful, a pending and a failed bid, for running the definitions.\<close>

definition pendingBid :: WaiverTransaction where
  "pendingBid =
     \<lparr>transaction_id = 2, player_name = js ''B'', transaction_type = ADD, bid_amount = 40,
      status = PENDING\<rparr>"

definition sampleHistory :: "WaiverTransaction list" where
  "sampleHistory =
     [\<lparr>transaction_id = 1, player_name = js ''A'', transaction_type = ADD, bid_amount = 15,
       status = SUCCESSFUL\<rparr>,
      pendingBid,
      \<lparr>transaction_id = 3, player_name = js ''C'', transaction_type = ADD, bid_amount = 7,
       status = FAILED\<rparr>,
      \<lparr>transaction_id = 4, player_name = js ''D'', transaction_type = DROP, bid_amount = 0,
       status = SUCCESSFUL\<rparr>]"

subsection \<open>frontend/src/hooks/useWaiverBudgets.ts\<close>

text \<open>
  \<open>Math.round((a / b) * 100)\<close> is double arithmetic; the hook and the card take it as the
  parameter \<open>percent\<close>. \<open>budgets\<close> is \<open>None\<close> while the query has no data.
\<close>

record 'p budgetInfo =
  remaining :: int
  spent :: int
  total :: int
  spentPercentage :: 'p
  remainingPercentage :: 'p

definition useTeamBudget ::
  "(int \<Rightarrow> int \<Rightarrow> 'p) \<Rightarrow> TeamBudgetSummary list option \<Rightarrow> nat
     \<Rightarrow> TeamBudgetSummary option \<times> 'p budgetInfo option" where
  "useTeamBudget percent budgets teamId =
     (let teamBudget =
            (case budgets of None \<Rightarrow> None
             | Some bs \<Rightarrow> List.find (\<lambda>budget. team_id budget = teamId) bs)
      in (teamBudget,
          case teamBudget of
            None \<Rightarrow> None
          | Some b \<Rightarrow>
              Some \<lparr>remaining = current_budget b,
                    spent = spent_budget b,
                    total = total_budget b,
                    spentPercentage = percent (spent_budget b) (total_budget b),
                    remainingPercentage = percent (current_budget b) (total_budget b)\<rparr>))"

subsection \<open>frontend/src/components/layout/Header.tsx\<close>

text \<open>
  What \<open>WaiverBudgetCard\<close> puts on the screen: the three amounts, the percentage line,
  the pending badge and the first three transactions. The health colours, which compare
  the rounded double percentage with 70 and 40, are left out.
\<close>

record 'p budgetCard =
  isUserTeam :: bool
  shown_remaining :: int
  shown_total :: int
  shown_spent :: int
  shown_spentPercentage :: 'p
  pendingBadge :: bool
  shown_transactions :: "WaiverTransaction list"
  moreTransactions :: nat

definition WaiverBudgetCard ::
  "(int \<Rightarrow> int \<Rightarrow> 'p) \<Rightarrow> TeamBudgetSummary \<Rightarrow> nat option \<Rightarrow> 'p budgetCard" where
  "WaiverBudgetCard percent budget userTeamId =
     \<lparr>isUserTeam = (Some (team_id budget) = userTeamId),
      shown_remaining = current_budget budget,
      shown_total = total_budget budget,
      shown_spent = spent_budget budget,
      shown_spentPercentage = percent (spent_budget budget) (total_budget budget),
      pendingBadge = list_ex (\<lambda>t. status t = PENDING) (recent_transactions budget),
      shown_transactions = take 3 (recent_transactions budget),
      moreTransactions = length (recent_transactions budget) - 3\<rparr>"

text \<open>The percentage when the double arithmetic is exact, for running the definitions.\<close>

definition percentExact :: "int \<Rightarrow> int \<Rightarrow> int option" where
  "percentExact a b = (if b = 0 then None else Some ((200 * a + b) div (2 * b)))"

definition sampleBudget :: TeamBudgetSummary where
  "sampleBudget = teamBudgetSummary 1 (js ''Rogues'') 100 sampleHistory (take 3 sampleHistory)"

section \<open>The retry strategy of the remote client\<close>

text \<open>
  \<open>espn_request_with_retry(url, cookies=None, max_retries=3)\<close> of the ESPN integration
  notes. \<open>await httpx.get(...)\<close> is read as the asynchronous request that the \<open>await\<close>
  expects. One call either raises \<open>httpx.RequestError\<close> or yields a response
  with a status code and a body; the body is \<open>Some j\<close> when \<open>response.json()\<close> decodes it to
  \<open>j\<close> and \<open>None\<close> when decoding raises. The upstream is the function that gives the outcome
  of the call made in each loop iteration. A run ends with what the function returns or
  raises, and records how many calls it made and the delays it slept, in order.
\<close>

datatype 'j outcome = Response nat "'j option" | RequestError

datatype 'j ended =
    Returned 'j
  | JSONDecodeError
  | HTTPStatusError nat
  | RequestErrorRaised
  | MaxRetriesExceeded

record 'j run =
  result :: "'j ended"
  attempts :: nat
  sleeps :: "nat list"

text \<open>\<open>response.raise_for_status()\<close> raises unless the status is a 2xx.\<close>

definition raise_for_status_raises :: "nat \<Rightarrow> bool" where
  "raise_for_status_raises status_code = (\<not> (200 \<le> status_code \<and> status_code \<le> 299))"

function retry_loop :: "(nat \<Rightarrow> 'j outcome) \<Rightarrow> int \<Rightarrow> nat \<Rightarrow> nat list \<Rightarrow> 'j run" where
  "retry_loop upstream max_retries attempt slept =
     (if int attempt < max_retries then
        (case upstream attempt of
           Response status_code body \<Rightarrow>
             if status_code = 200 then
               (case body of
                  Some j \<Rightarrow> \<lparr>result = Returned j, attempts = attempt + 1, sleeps = slept\<rparr>
                | None \<Rightarrow> \<lparr>result = JSONDecodeError, attempts = attempt + 1, sleeps = slept\<rparr>)
             else if status_code = 429 then
               retry_loop upstream max_retries (attempt + 1) (slept @ [2 ^ attempt])
             else if raise_for_status_raises status_code then
               \<lparr>result = HTTPStatusError status_code, attempts = attempt + 1, sleeps = slept\<rparr>
             else retry_loop upstream max_retries (attempt + 1) slept
         | RequestError \<Rightarrow>
             if int attempt = max_retries - 1 then
               \<lparr>result = RequestErrorRaised, attempts = attempt + 1, sleeps = slept\<rparr>
             else retry_loop upstream max_retries (attempt + 1) (slept @ [1]))
      else \<lparr>result = MaxRetriesExceeded, attempts = attempt, sleeps = slept\<rparr>)"
  by pat_completeness auto
termination
  by (relation "measure (\<lambda>(upstream, max_retries, attempt, slept). nat (max_retries - int attempt))") auto

declare retry_loop.simps [simp del]

definition espn_request_with_retry :: "(nat \<Rightarrow> 'j outcome) \<Rightarrow> int \<Rightarrow> 'j run" where
  "espn_request_with_retry upstream max_retries = retry_loop upstream max_retries 0 []"

definition default_max_retries :: int where
  "default_max_retries = 3"

text \<open>An upstream that answers 429 to the first three calls and 200 from then on.\<close>

definition rateLimitedThrice :: "'j \<Rightarrow> nat \<Rightarrow> 'j outcome" where
  "rateLimitedThrice j n = (if n < 3 then Response 429 None else Response 200 (Some j))"

text \<open>An upstream that answers 401 to every call.\<close>

definition alwaysUnauthorized :: "nat \<Rightarrow> 'j outcome" where
  "alwaysUnauthorized n = Response 401 None"

section \<open>frontend/src/services/api.ts\<close>

text \<open>
  The state the module touches: the browser's local storage, the default
  \<open>Authorization\<close> header of the axios instance and the path of the current page.
\<close>

record client =
  localStorage :: "jsstring \<rightharpoonup> jsstring"
  authorization :: "jsstring option"
  pathname :: jsstring

record ErrorResponse =
  response_status :: nat
  data_detail :: "jsstring option"

record AxiosError =
  response :: "ErrorResponse option"
  message :: jsstring

record ApiError =
  detail :: jsstring
  error_status :: "nat option"

definition getAuthToken :: "client \<Rightarrow> jsstring option" where
  "getAuthToken c = localStorage c (js ''access_token'')"

definition setAuthToken :: "jsstring \<Rightarrow> client \<Rightarrow> client" where
  "setAuthToken token c =
     c\<lparr>localStorage := (localStorage c)(js ''access_token'' \<mapsto> token),
       authorization := Some (js ''Bearer '' @ token)\<rparr>"

definition removeAuthToken :: "client \<Rightarrow> client" where
  "removeAuthToken c =
     c\<lparr>localStorage := (localStorage c)(js ''access_token'' := None),
       authorization := None\<rparr>"

text \<open>
  The two handlers of the response interceptor. Each returns a promise, which is either
  resolved with a response or rejected with an \<open>ApiError\<close>; neither handler sends a
  request. Assigning \<open>window.location.href\<close> moves the page to that path.
\<close>

record AxiosResponse =
  http_status :: nat
  http_data :: jsstring

datatype promise = Resolved AxiosResponse | Rejected ApiError

definition onFulfilled :: "AxiosResponse \<Rightarrow> client \<Rightarrow> promise \<times> client" where
  "onFulfilled resp c = (Resolved resp, c)"

definition onRejected :: "AxiosError \<Rightarrow> client \<Rightarrow> promise \<times> client" where
  "onRejected error c =
     (let c' =
            (if map_option response_status (response error) = Some 401 then
               (let c1 = removeAuthToken c
                in if pathname c1 \<noteq> js ''/login'' then c1\<lparr>pathname := js ''/login''\<rparr> else c1)
             else c);
          apiError =
            \<lparr>detail = orElse (case response error of None \<Rightarrow> None | Some r \<Rightarrow> data_detail r)
                       (orElse (Some (message error)) (js ''An unexpected error occurred'')),
             error_status = map_option response_status (response error)\<rparr>
      in (Rejected apiError, c'))"

text \<open>A logged-in client on the leagues page and a 401 answer, for running the handlers.\<close>

definition loggedIn :: client where
  "loggedIn = setAuthToken (js ''token'')
                \<lparr>localStorage = Map.empty, authorization = None, pathname = js ''/leagues''\<rparr>"

definition unauthorizedError :: AxiosError where
  "unauthorizedError =
     \<lparr>response = Some \<lparr>response_status = 401, data_detail = Some (js ''Could not validate credentials'')\<rparr>,
      message = js ''Request failed with status code 401''\<rparr>"

section \<open>Trade evaluation\<close>

text \<open>
  The request and the response are the interfaces \<open>TradeAnalysisRequest\<close> and
  \<open>TradeAnalysisResponse\<close> of \<open>types/index.ts\<close>; \<open>fairness_score\<close> and \<open>value_difference\<close>
  are optional there. Of the response, the summary, the recommendations and the player
  details are left out: the spec gives no rule that determines them.
\<close>

record TradeAnalysisRequest =
  league_id :: nat
  proposing_team_id :: nat
  receiving_team_id :: nat
  give_players :: "nat list"
  receive_players :: "nat list"

record TradeAnalysisResponse =
  is_valid :: bool
  fairness_score :: "real option"
  value_difference :: "real option"

text \<open>
  Modelled from the spec: the evaluator behind \<open>/trades/analyze\<close> is not among the source
  files; \<open>tradesService.analyzeTrade\<close> only posts the request and returns the answer.
  Section 4.4 gives the evaluation. The synced state it reads is the active roster of each
  team and the value of each player; the weight of the penalty and epsilon are policy
  constants. A trade is valid when both player lists are non-empty and disjoint and every
  player is on the active roster of the team that gives it; an invalid trade gets
  \<open>is_valid = false\<close> and no score. Otherwise the value difference is the sum of the
  received values minus the sum of the given values, and the fairness score is 100 minus
  a penalty proportional to \<open>|valueDifference| / max(totalGive, totalReceive, epsilon)\<close>,
  clamped to the interval from 0 to 100.
\<close>

record league_state =
  activeRoster :: "nat \<Rightarrow> nat list"
  playerValue :: "nat \<Rightarrow> real"
  penaltyWeight :: real
  epsilon :: real

definition totalValue :: "league_state \<Rightarrow> nat list \<Rightarrow> real" where
  "totalValue st players = sum_list (map (playerValue st) players)"

definition validTrade :: "league_state \<Rightarrow> TradeAnalysisRequest \<Rightarrow> bool" where
  "validTrade st req =
     (give_players req \<noteq> [] \<and> receive_players req \<noteq> [] \<and>
      list_all (\<lambda>p. p \<notin> set (receive_players req)) (give_players req) \<and>
      list_all (\<lambda>p. p \<in> set (activeRoster st (proposing_team_id req))) (give_players req) \<and>
      list_all (\<lambda>p. p \<in> set (activeRoster st (receiving_team_id req))) (receive_players req))"

definition clamp :: "real \<Rightarrow> real \<Rightarrow> real \<Rightarrow> real" where
  "clamp lo hi x = max lo (min hi x)"

definition evaluate :: "league_state \<Rightarrow> TradeAnalysisRequest \<Rightarrow> TradeAnalysisResponse" where
  "evaluate st req =
     (if \<not> validTrade st req then
        \<lparr>is_valid = False, fairness_score = None, value_difference = None\<rparr>
      else
        (let totalGive = totalValue st (give_players req);
             totalReceive = totalValue st (receive_players req);
             valueDifference = totalReceive - totalGive;
             penalty = penaltyWeight st *
                       (\<bar>valueDifference\<bar> / max (max totalGive totalReceive) (epsilon st))
         in \<lparr>is_valid = True,
             fairness_score = Some (clamp 0 100 (100 - penalty)),
             value_difference = Some valueDifference\<rparr>))"

text \<open>The same trade seen from the other team: the sides and the teams change places.\<close>

definition swapSides :: "TradeAnalysisRequest \<Rightarrow> TradeAnalysisRequest" where
  "swapSides req =
     req\<lparr>proposing_team_id := receiving_team_id req,
         receiving_team_id := proposing_team_id req,
         give_players := receive_players req,
         receive_players := give_players req\<rparr>"

text \<open>
  A league of two teams for running the definitions: team 1 holds players 1 and 2, team 2
  holds players 3 and 4, with values 30, 50, 70 and 50.
\<close>

definition sampleLeague :: league_state where
  "sampleLeague =
     \<lparr>activeRoster = (\<lambda>team. if team = 1 then [1, 2] else if team = 2 then [3, 4] else []),
      playerValue = (\<lambda>p. if p = 1 then 30 else if p = 3 then 70 else 50),
      penaltyWeight = 100,
      epsilon = 1\<rparr>"

definition sampleTrade :: "nat list \<Rightarrow> nat list \<Rightarrow> TradeAnalysisRequest" where
  "sampleTrade give receive =
     \<lparr>league_id = 1, proposing_team_id = 1, receiving_team_id = 2,
      give_players = give, receive_players = receive\<rparr>"

section \<open>Properties of the utilities\<close>

subsection \<open>Colour mappings\<close>

lemma getPositionColor_default:
  "toUpperCase position \<notin> set positionCases \<Longrightarrow>
   getPositionColor toUpperCase position = js ''text-gray-600 bg-gray-100''"
  by (simp add: getPositionColor_def positionCases_def Let_def)

lemma getPositionColor_range:
  "getPositionColor toUpperCase position \<in> set positionColors"
  by (simp add: getPositionColor_def positionColors_def Let_def)

lemma getInjuryStatusColor_default:
  "st \<noteq> [] \<Longrightarrow> st \<noteq> js ''ACTIVE'' \<Longrightarrow> toUpperCase st \<notin> set injuryStatusCases \<Longrightarrow>
   getInjuryStatusColor toUpperCase (Some st) = js ''text-gray-600''"
  by (simp add: getInjuryStatusColor_def injuryStatusCases_def Let_def)

lemma getInjuryStatusColor_range:
  "getInjuryStatusColor toUpperCase injuryStatus \<in> set injuryStatusColors"
  by (cases injuryStatus) (simp_all add: getInjuryStatusColor_def injuryStatusColors_def Let_def)

text \<open>
  Claim C6. The mapping functions from a position, a slot or a status code to a display
  value return a value for every input: one of a fixed list of values, with no branch that
  throws. A code outside the recognised set (the string \<open>999\<close>, an unknown status) gets the
  default of the \<open>switch\<close>. This holds for whatever \<open>toUpperCase\<close> does to the input.
\<close>

theorem mapping_unknown_code_gets_default:
  "(toUpperCase position \<notin> set positionCases \<longrightarrow>
      getPositionColor toUpperCase position = js ''text-gray-600 bg-gray-100'') \<and>
   getPositionColor toUpperCase position \<in> set positionColors \<and>
   (st \<noteq> [] \<and> st \<noteq> js ''ACTIVE'' \<and> toUpperCase st \<notin> set injuryStatusCases \<longrightarrow>
      getInjuryStatusColor toUpperCase (Some st) = js ''text-gray-600'') \<and>
   getInjuryStatusColor toUpperCase injuryStatus \<in> set injuryStatusColors \<and>
   (slot \<noteq> js ''BENCH'' \<and> slot \<noteq> js ''IR'' \<longrightarrow>
      getSlotColor slot = js ''bg-green-100 text-green-700'')"
  using getPositionColor_default [of toUpperCase position]
    getPositionColor_range [of toUpperCase position]
    getInjuryStatusColor_default [of st toUpperCase]
    getInjuryStatusColor_range [of toUpperCase injuryStatus]
  by (simp add: getSlotColor_def)

theorem mapping_unknown_code_gets_default_witness:
  "toUpperCaseASCII (js ''999'') \<notin> set positionCases \<and>
   getPositionColor toUpperCaseASCII (js ''999'') = js ''text-gray-600 bg-gray-100'' \<and>
   js ''Suspended'' \<noteq> [] \<and> js ''Suspended'' \<noteq> js ''ACTIVE'' \<and>
   toUpperCaseASCII (js ''Suspended'') \<notin> set injuryStatusCases \<and>
   getInjuryStatusColor toUpperCaseASCII (Some (js ''Suspended'')) = js ''text-gray-600'' \<and>
   js ''999'' \<noteq> js ''BENCH'' \<and> js ''999'' \<noteq> js ''IR'' \<and>
   getSlotColor (js ''999'') = js ''bg-green-100 text-green-700''"
proof -
  have h1: "toUpperCaseASCII (js ''999'') \<notin> set positionCases"
    by (simp add: toUpperCaseASCII_def js_def positionCases_def)
  have h2: "js ''Suspended'' \<noteq> [] \<and> js ''Suspended'' \<noteq> js ''ACTIVE'' \<and>
            toUpperCaseASCII (js ''Suspended'') \<notin> set injuryStatusCases"
    by (simp add: toUpperCaseASCII_def js_def injuryStatusCases_def)
  have h3: "js ''999'' \<noteq> js ''BENCH'' \<and> js ''999'' \<noteq> js ''IR''"
    by (simp add: js_def)
  show ?thesis
    using h1 h2 h3
      mapping_unknown_code_gets_default
        [of toUpperCaseASCII "js ''999''" "js ''Suspended''" None "js ''999''"]
    by blast
qed

subsection \<open>Winning percentage\<close>

lemma getWinPercentage_bounds:
  assumes "0 \<le> wins" "0 \<le> losses" "0 \<le> ties"
  shows "0 \<le> getWinPercentage wins losses ties \<and> getWinPercentage wins losses ties \<le> 100"
proof (cases "wins + losses + ties = 0")
  case True
  then show ?thesis by (simp add: getWinPercentage_def)
next
  case False
  with assms have pos: "0 < wins + losses + ties" by linarith
  define q where "q = (wins + ties * 0.5) / (wins + losses + ties)"
  have "0 \<le> wins + ties * 0.5" and "wins + ties * 0.5 \<le> wins + losses + ties"
    using assms by simp_all
  then have q: "0 \<le> q" "q \<le> 1"
    using pos by (simp_all add: q_def)
  have "getWinPercentage wins losses ties = q * 100"
    using False unfolding getWinPercentage_def Let_def q_def by (simp only: if_False)
  then show ?thesis using q by simp
qed

text \<open>
  Claim C9. For non-negative wins, losses and ties, \<open>getWinPercentage\<close> returns 0 when
  no game was played, and otherwise \<open>((wins + 0.5 * ties) / (wins + losses + ties)) * 100\<close>;
  the division is only reached with a non-zero divisor, and the result always lies
  between 0 and 100.
\<close>

theorem getWinPercentage_guarded_in_range:
  "0 \<le> wins \<and> 0 \<le> losses \<and> 0 \<le> ties \<longrightarrow>
     (wins + losses + ties = 0 \<longrightarrow> getWinPercentage wins losses ties = 0) \<and>
     (wins + losses + ties \<noteq> 0 \<longrightarrow>
        getWinPercentage wins losses ties = ((wins + 0.5 * ties) / (wins + losses + ties)) * 100) \<and>
     0 \<le> getWinPercentage wins losses ties \<and> getWinPercentage wins losses ties \<le> 100"
  using getWinPercentage_bounds [of wins losses ties]
  by (simp add: getWinPercentage_def Let_def mult.commute)

theorem getWinPercentage_guarded_in_range_witness:
  "(0::real) \<le> 7 \<and> (0::real) \<le> 5 \<and> (0::real) \<le> 2 \<and>
   getWinPercentage 7 5 2 = 400 / 7 \<and> getWinPercentage 0 0 0 = 0 \<and>
   0 \<le> getWinPercentage 7 5 2 \<and> getWinPercentage 7 5 2 \<le> 100"
  using getWinPercentage_guarded_in_range [of 7 5 2]
        getWinPercentage_guarded_in_range [of 0 0 0]
  by simp

subsection \<open>League id validation\<close>

lemmas parseInt_defs = isValidESPNLeagueId_def isNaN_def parseInt_def skipWhiteSpaceAndSign_def
  js_def isStrWhiteSpaceChar_def isRadixDigit_def digitValue_def radixValue_def digitOf_def Let_def

lemma isValid_iff: "isValidESPNLeagueId s = (\<exists>n. parseInt s = Some n \<and> 0 < n)"
  by (cases "parseInt s") (simp_all add: isValidESPNLeagueId_def isNaN_def)

lemma foldl_radix_pos:
  "0 < a \<Longrightarrow> 0 < R \<Longrightarrow> 0 < foldl (\<lambda>acc c. acc * R + digitOf c) a Z"
  by (induction Z arbitrary: a) simp_all

lemma radixValue_append_pos:
  "0 < radixValue R ds \<Longrightarrow> 0 < R \<Longrightarrow> 0 < radixValue R (ds @ suffix)"
  by (simp add: radixValue_def foldl_radix_pos)

lemma digit10_not_space: "isRadixDigit 10 c \<Longrightarrow> \<not> isStrWhiteSpaceChar c"
  by (auto simp: isRadixDigit_def digitValue_def isStrWhiteSpaceChar_def split: if_splits)

lemma digit10_range: "isRadixDigit 10 c = (48 \<le> c \<and> c \<le> 57)"
  by (auto simp: isRadixDigit_def digitValue_def split: if_splits)

lemma radixValue_single: "radixValue R [c] = digitOf c"
  by (simp add: radixValue_def)

text \<open>
  A string that starts with decimal digits of positive value parses to the value of its
  longest digit prefix: nothing is skipped, no sign is read and no hex prefix is found.
\<close>

lemma parseInt_digits:
  assumes ne: "ds \<noteq> []" and dig: "\<forall>c\<in>set ds. isRadixDigit 10 c" and pos: "0 < radixValue 10 ds"
  shows "parseInt (ds @ g) = Some (int (radixValue 10 (ds @ takeWhile (isRadixDigit 10) g)))"
proof -
  obtain d rest where ds: "ds = d # rest" using ne by (cases ds) auto
  have d: "48 \<le> d" "d \<le> 57" using dig ds by (simp_all add: digit10_range)
  have nospace: "\<not> isStrWhiteSpaceChar d" using dig ds by (simp add: digit10_not_space)
  have S0: "dropWhile isStrWhiteSpaceChar (ds @ g) = ds @ g"
    using nospace ds by simp
  have S1: "skipWhiteSpaceAndSign (ds @ g) = ds @ g"
    using d ds nospace by (simp add: skipWhiteSpaceAndSign_def)
  have nohex: "take 2 (ds @ g) \<noteq> js ''0x'' \<and> take 2 (ds @ g) \<noteq> js ''0X''"
  proof (cases rest)
    case Nil
    then have "digitOf d \<noteq> 0" using pos ds by (simp add: radixValue_single)
    then have "d \<noteq> 48" by (auto simp: digitOf_def digitValue_def)
    then show ?thesis using ds by (simp add: js_def)
  next
    case (Cons e rest')
    then have "48 \<le> e \<and> e \<le> 57" using dig ds by (simp add: digit10_range)
    then show ?thesis using ds Cons by (auto simp: js_def)
  qed
  have Z: "takeWhile (isRadixDigit 10) (ds @ g) = ds @ takeWhile (isRadixDigit 10) g"
    using dig by simp
  have sign: "hd (ds @ g) \<noteq> 45" using d ds by simp
  show ?thesis
    unfolding parseInt_def Let_def S0 S1 using nohex sign Z ds by simp
qed

lemma isValid_digits:
  assumes "ds \<noteq> []" "\<forall>c\<in>set ds. isRadixDigit 10 c" "0 < radixValue 10 ds"
  shows "isValidESPNLeagueId (ds @ g)"
  using parseInt_digits [OF assms, of g]
        radixValue_append_pos [OF assms(3), of "takeWhile (isRadixDigit 10) g"]
  by (simp add: isValid_iff)

lemma isValid_negative:
  assumes "\<forall>c\<in>set ws. isStrWhiteSpaceChar c"
  shows "\<not> isValidESPNLeagueId (ws @ 45 # rest)"
proof -
  have "\<not> isStrWhiteSpaceChar 45" by (simp add: isStrWhiteSpaceChar_def)
  then have S0: "dropWhile isStrWhiteSpaceChar (ws @ 45 # rest) = 45 # rest"
    using assms by (simp add: dropWhile_append3)
  show ?thesis
    unfolding isValid_iff parseInt_def Let_def S0 by simp
qed

lemma parseInt_no_digits:
  assumes "case skipWhiteSpaceAndSign s of [] \<Rightarrow> True | c # _ \<Rightarrow> \<not> isRadixDigit 10 c"
  shows "parseInt s = None"
proof (cases "skipWhiteSpaceAndSign s")
  case Nil
  then show ?thesis by (simp add: parseInt_def Let_def)
next
  case (Cons c cs)
  then have c: "\<not> isRadixDigit 10 c" using assms by simp
  then have "c \<noteq> 48" by (auto simp: digit10_range)
  then have nohex: "take 2 (c # cs) \<noteq> js ''0x'' \<and> take 2 (c # cs) \<noteq> js ''0X''"
    by (auto simp: js_def)
  show ?thesis
    unfolding parseInt_def Let_def Cons using nohex c by simp
qed

text \<open>
  Claim C10. \<open>isValidESPNLeagueId\<close> is true exactly when \<open>parseInt\<close> of the string is a
  number greater than 0. So it accepts every string that begins with decimal digits of
  positive value, whatever follows them (\<open>123abc\<close>), and it rejects \<open>0\<close>, every string
  whose number begins with a minus sign, and every string with no leading digits, that is
  with no decimal digit where \<open>parseInt\<close> starts to read the number (after the white
  space and the one sign it skips).
\<close>

theorem isValidESPNLeagueId_parseInt_positive:
  "(isValidESPNLeagueId s \<longleftrightarrow> (\<exists>n. parseInt s = Some n \<and> 0 < n)) \<and>
   (ds \<noteq> [] \<and> (\<forall>c\<in>set ds. isRadixDigit 10 c) \<and> 0 < radixValue 10 ds \<longrightarrow>
      isValidESPNLeagueId (ds @ garbage)) \<and>
   isValidESPNLeagueId (js ''123abc'') \<and>
   \<not> isValidESPNLeagueId (js ''0'') \<and>
   ((\<forall>c\<in>set ws. isStrWhiteSpaceChar c) \<longrightarrow> \<not> isValidESPNLeagueId (ws @ js ''-'' @ rest)) \<and>
   ((case skipWhiteSpaceAndSign s of [] \<Rightarrow> True | c # _ \<Rightarrow> \<not> isRadixDigit 10 c) \<longrightarrow>
      \<not> isValidESPNLeagueId s)"
proof -
  have a: "isValidESPNLeagueId (js ''123abc'')" by (simp add: parseInt_defs)
  have b: "\<not> isValidESPNLeagueId (js ''0'')" by (simp add: parseInt_defs)
  have c: "js ''-'' = [45]" by (simp add: js_def)
  show ?thesis
    using isValid_digits [of ds garbage] isValid_negative [of ws rest] parseInt_no_digits [of s] a b
    by (auto simp: isValid_iff c)
qed

theorem isValidESPNLeagueId_parseInt_positive_witness:
  "js ''42'' \<noteq> [] \<and> list_all (isRadixDigit 10) (js ''42'') \<and> 0 < radixValue 10 (js ''42'') \<and>
   isValidESPNLeagueId (js ''42'' @ js ''nd street'') \<and>
   list_all isStrWhiteSpaceChar (js '' '') \<and>
   \<not> isValidESPNLeagueId (js '' '' @ js ''-'' @ js ''7'') \<and>
   (case skipWhiteSpaceAndSign (js ''abc'') of [] \<Rightarrow> True | c # _ \<Rightarrow> \<not> isRadixDigit 10 c) \<and>
   \<not> isValidESPNLeagueId (js ''abc'')"
proof -
  have h1: "js ''42'' \<noteq> [] \<and> list_all (isRadixDigit 10) (js ''42'') \<and> 0 < radixValue 10 (js ''42'')"
    by (simp add: js_def isRadixDigit_def digitValue_def radixValue_def digitOf_def)
  have h2: "list_all isStrWhiteSpaceChar (js '' '')"
    by (simp add: js_def isStrWhiteSpaceChar_def)
  have h3: "case skipWhiteSpaceAndSign (js ''abc'') of [] \<Rightarrow> True | c # _ \<Rightarrow> \<not> isRadixDigit 10 c"
    by (simp add: js_def skipWhiteSpaceAndSign_def isStrWhiteSpaceChar_def isRadixDigit_def digitValue_def)
  show ?thesis
    using h1 h2 h3
      isValidESPNLeagueId_parseInt_positive
        [of "js ''abc''" "js ''42''" "js ''nd street''" "js '' ''" "js ''7''"]
    unfolding list_all_iff by blast
qed

section \<open>Properties of the matchup card\<close>

lemma winner_exhaust: "w \<in> {HOME, AWAY, TIE, UNDECIDED}"
  by (cases w) simp_all

lemma getWinnerStyle_undecided:
  "winner matchup = UNDECIDED \<Longrightarrow> getWinnerStyle matchup userTeamId isHome = []"
  by (simp add: getWinnerStyle_def Let_def)

lemma getWinnerStyle_decided:
  "winner matchup \<noteq> UNDECIDED \<Longrightarrow> getWinnerStyle matchup userTeamId isHome \<noteq> []"
  by (simp add: getWinnerStyle_def Let_def js_def)

lemma resultSummary_iff: "(resultSummary matchup \<noteq> None) = (winner matchup \<noteq> UNDECIDED)"
  by (simp add: resultSummary_def)

lemma resultSummary_text:
  "map_option snd (resultSummary matchup) =
     (case winner matchup of
        HOME \<Rightarrow> Some (homeTeamName matchup @ js '' Wins'')
      | AWAY \<Rightarrow> Some (awayTeamName matchup @ js '' Wins'')
      | TIE \<Rightarrow> Some (js ''Tied Game'')
      | UNDECIDED \<Rightarrow> None)"
  by (cases "winner matchup") (simp_all add: resultSummary_def)

text \<open>
  Claim C8. The winner of a matchup is exactly one of HOME, AWAY, TIE and UNDECIDED. While
  it is UNDECIDED, \<open>getWinnerStyle\<close> returns the empty style for the home row and for the
  away row, and the result summary is rendered if and only if the winner is not
  UNDECIDED: then it reads \<open>Tied Game\<close> for a tie and the winning team's name followed by
  \<open>Wins\<close> otherwise.
\<close>

theorem undecided_matchup_shows_no_winner:
  "winner matchup \<in> {HOME, AWAY, TIE, UNDECIDED} \<and>
   distinct [HOME, AWAY, TIE, UNDECIDED] \<and>
   (winner matchup = UNDECIDED \<longrightarrow>
      getWinnerStyle matchup userTeamId True = [] \<and>
      getWinnerStyle matchup userTeamId False = []) \<and>
   ((resultSummary matchup \<noteq> None) = (winner matchup \<noteq> UNDECIDED)) \<and>
   map_option snd (resultSummary matchup) =
     (case winner matchup of
        HOME \<Rightarrow> Some (homeTeamName matchup @ js '' Wins'')
      | AWAY \<Rightarrow> Some (awayTeamName matchup @ js '' Wins'')
      | TIE \<Rightarrow> Some (js ''Tied Game'')
      | UNDECIDED \<Rightarrow> None)"
  using winner_exhaust [of "winner matchup"] getWinnerStyle_undecided [of matchup userTeamId]
    resultSummary_iff [of matchup] resultSummary_text [of matchup]
  by simp

theorem undecided_matchup_shows_no_winner_witness:
  "winner unscoredMatchup = UNDECIDED \<and>
   getWinnerStyle unscoredMatchup (Some 1) True = [] \<and>
   getWinnerStyle unscoredMatchup (Some 1) False = [] \<and>
   resultSummary unscoredMatchup = None \<and>
   map_option snd (resultSummary (unscoredMatchup\<lparr>winner := HOME\<rparr>)) =
     Some (js ''Gotham Rogues Wins'')"
proof -
  have h: "winner unscoredMatchup = UNDECIDED" by (simp add: unscoredMatchup_def)
  have n: "homeTeamName (unscoredMatchup\<lparr>winner := HOME\<rparr>) @ js '' Wins'' = js ''Gotham Rogues Wins''"
    by (simp add: unscoredMatchup_def homeTeamName_def orElse_def trim_def js_def
        isStrWhiteSpaceChar_def)
  show ?thesis
    using h undecided_matchup_shows_no_winner [of unscoredMatchup "Some 1"]
      undecided_matchup_shows_no_winner [of "unscoredMatchup\<lparr>winner := HOME\<rparr>" "Some 1"]
    unfolding n [symmetric] by simp
qed

section \<open>Properties of the retry strategy\<close>

lemma retry_loop_429:
  "int attempt < max_retries \<Longrightarrow> upstream attempt = Response 429 body \<Longrightarrow>
   attempt' = attempt + 1 \<Longrightarrow> slept' = slept @ [2 ^ attempt] \<Longrightarrow>
   retry_loop upstream max_retries attempt slept = retry_loop upstream max_retries attempt' slept'"
  by (subst retry_loop.simps) simp

lemma retry_loop_200:
  "int attempt < max_retries \<Longrightarrow> upstream attempt = Response 200 (Some j) \<Longrightarrow>
   retry_loop upstream max_retries attempt slept =
     \<lparr>result = Returned j, attempts = attempt + 1, sleeps = slept\<rparr>"
  by (subst retry_loop.simps) simp

lemma retry_loop_exhausted:
  "\<not> int attempt < max_retries \<Longrightarrow>
   retry_loop upstream max_retries attempt slept =
     \<lparr>result = MaxRetriesExceeded, attempts = attempt, sleeps = slept\<rparr>"
  by (subst retry_loop.simps) simp

text \<open>Three 429 answers take the loop to its fourth iteration, after sleeping 1, 2 and 4.\<close>

lemma three_429_then:
  assumes m: "3 \<le> max_retries"
    and r0: "upstream 0 = Response 429 b0" and r1: "upstream 1 = Response 429 b1"
    and r2: "upstream 2 = Response 429 b2"
  shows "espn_request_with_retry upstream max_retries = retry_loop upstream max_retries 3 [1, 2, 4]"
proof -
  have "retry_loop upstream max_retries 0 [] = retry_loop upstream max_retries 1 [1]"
    using m r0 by (intro retry_loop_429) simp_all
  also have "\<dots> = retry_loop upstream max_retries 2 [1, 2]"
    using m r1 by (intro retry_loop_429) simp_all
  also have "\<dots> = retry_loop upstream max_retries 3 [1, 2, 4]"
    using m r2 by (intro retry_loop_429) simp_all
  finally show ?thesis by (simp add: espn_request_with_retry_def)
qed

lemma retry_after_three_429:
  assumes m: "4 \<le> max_retries"
    and r0: "upstream 0 = Response 429 b0" and r1: "upstream 1 = Response 429 b1"
    and r2: "upstream 2 = Response 429 b2" and r3: "upstream 3 = Response 200 (Some j)"
  shows "espn_request_with_retry upstream max_retries =
           \<lparr>result = Returned j, attempts = 4, sleeps = [1, 2, 4]\<rparr>"
proof -
  have "retry_loop upstream max_retries 3 [1, 2, 4] =
          \<lparr>result = Returned j, attempts = 3 + 1, sleeps = [1, 2, 4]\<rparr>"
    using m r3 by (intro retry_loop_200) simp_all
  then show ?thesis
    using three_429_then [OF _ r0 r1 r2, of max_retries] m by simp
qed

lemma retry_default_gives_up:
  assumes r0: "upstream 0 = Response 429 b0" and r1: "upstream 1 = Response 429 b1"
    and r2: "upstream 2 = Response 429 b2"
  shows "espn_request_with_retry upstream default_max_retries =
           \<lparr>result = MaxRetriesExceeded, attempts = 3, sleeps = [1, 2, 4]\<rparr>"
proof -
  have "retry_loop upstream 3 3 [1, 2, 4] =
          \<lparr>result = MaxRetriesExceeded, attempts = 3, sleeps = [1, 2, 4]\<rparr>"
    by (intro retry_loop_exhausted) simp
  then show ?thesis
    using three_429_then [OF _ r0 r1 r2, of 3] by (simp add: default_max_retries_def)
qed

text \<open>
  Claim C2, as stated, fails on the code. With the default \<open>max_retries = 3\<close> the loop
  runs three iterations: after three 429 answers it has slept 1, 2 and 4 seconds and
  raises \<open>Max retries exceeded\<close>; the fourth call, which would have succeeded, is never
  made.
\<close>

theorem three_rate_limits_exhaust_default_retries:
  "\<not> (result (espn_request_with_retry (rateLimitedThrice (js ''league'')) default_max_retries)
        = Returned (js ''league'') \<and>
      attempts (espn_request_with_retry (rateLimitedThrice (js ''league'')) default_max_retries) = 4) \<and>
   result (espn_request_with_retry (rateLimitedThrice (js ''league'')) default_max_retries)
     = MaxRetriesExceeded \<and>
   attempts (espn_request_with_retry (rateLimitedThrice (js ''league'')) default_max_retries) = 3"
  by (simp add: espn_request_with_retry_def default_max_retries_def retry_loop.simps
      rateLimitedThrice_def)

text \<open>
  Claim C2, amended. When the upstream answers 429 to the first three calls and 200 with a
  JSON body to the fourth, a call with \<open>max_retries\<close> of at least 4 returns that body after
  exactly 4 attempts, and the delays slept between the attempts, 1, 2 and 4, are strictly
  increasing. A call with the default \<open>max_retries = 3\<close> makes exactly 3 attempts and
  raises \<open>Max retries exceeded\<close>.
\<close>

theorem three_rate_limits_then_success:
  "upstream 0 = Response 429 b0 \<and> upstream 1 = Response 429 b1 \<and>
   upstream 2 = Response 429 b2 \<and> upstream 3 = Response 200 (Some j) \<longrightarrow>
     (4 \<le> max_retries \<longrightarrow>
        espn_request_with_retry upstream max_retries =
          \<lparr>result = Returned j, attempts = 4, sleeps = [1, 2, 4]\<rparr> \<and>
        sorted_wrt (<) (sleeps (espn_request_with_retry upstream max_retries))) \<and>
     espn_request_with_retry upstream default_max_retries =
       \<lparr>result = MaxRetriesExceeded, attempts = 3, sleeps = [1, 2, 4]\<rparr>"
  using retry_after_three_429 [of max_retries upstream b0 b1 b2 j]
    retry_default_gives_up [of upstream b0 b1 b2]
  by simp

theorem three_rate_limits_then_success_witness:
  "rateLimitedThrice (js ''league'') 0 = Response 429 None \<and>
   rateLimitedThrice (js ''league'') 1 = Response 429 None \<and>
   rateLimitedThrice (js ''league'') 2 = Response 429 None \<and>
   rateLimitedThrice (js ''league'') 3 = Response 200 (Some (js ''league'')) \<and>
   (4::int) \<le> 4 \<and>
   espn_request_with_retry (rateLimitedThrice (js ''league'')) 4 =
     \<lparr>result = Returned (js ''league''), attempts = 4, sleeps = [1, 2, 4]\<rparr> \<and>
   sorted_wrt (<) (sleeps (espn_request_with_retry (rateLimitedThrice (js ''league'')) 4)) \<and>
   espn_request_with_retry (rateLimitedThrice (js ''league'')) default_max_retries =
     \<lparr>result = MaxRetriesExceeded, attempts = 3, sleeps = [1, 2, 4]\<rparr>"
proof -
  have h: "rateLimitedThrice (js ''league'') 0 = Response 429 None \<and>
   rateLimitedThrice (js ''league'') 1 = Response 429 None \<and>
   rateLimitedThrice (js ''league'') 2 = Response 429 None \<and>
   rateLimitedThrice (js ''league'') 3 = Response 200 (Some (js ''league''))"
    by (simp add: rateLimitedThrice_def)
  show ?thesis
    using h three_rate_limits_then_success
              [of "rateLimitedThrice (js ''league'')" None None None "js ''league''" 4]
    by simp
qed

text \<open>
  A 401 answer ends the run: \<open>raise_for_status\<close> raises \<open>HTTPStatusError\<close>, which the
  \<open>except httpx.RequestError\<close> clause does not catch. So no call is made after the one that
  was answered 401.
\<close>

lemma no_attempt_after_401:
  "attempt \<le> k \<Longrightarrow> upstream k = Response 401 body \<Longrightarrow>
   attempts (retry_loop upstream max_retries attempt slept) \<le> k + 1 \<and>
   (attempts (retry_loop upstream max_retries attempt slept) = k + 1 \<longrightarrow>
      result (retry_loop upstream max_retries attempt slept) = HTTPStatusError 401)"
proof (induction upstream max_retries attempt slept rule: retry_loop.induct)
  case (1 upstream max_retries attempt slept)
  show ?case
  proof (cases "attempt = k")
    case True
    then show ?thesis using "1.prems"
      by (subst (1 2 3) retry_loop.simps) (simp add: raise_for_status_raises_def)
  next
    case False
    then have lt: "attempt + 1 \<le> k" using "1.prems" by simp
    show ?thesis
      using "1.IH" lt "1.prems"(2) False
      by (subst (1 2 3) retry_loop.simps) (auto split: outcome.splits option.splits)
  qed
qed

lemma retry_401_first:
  "0 < max_retries \<Longrightarrow> upstream 0 = Response 401 body \<Longrightarrow>
   espn_request_with_retry upstream max_retries =
     \<lparr>result = HTTPStatusError 401, attempts = 1, sleeps = []\<rparr>"
  unfolding espn_request_with_retry_def
  by (subst retry_loop.simps) (simp add: raise_for_status_raises_def)

lemma onRejected_401:
  assumes "map_option response_status (response error) = Some 401"
  shows "(\<exists>e. fst (onRejected error c) = Rejected e \<and> error_status e = Some 401) \<and>
         getAuthToken (snd (onRejected error c)) = None \<and>
         authorization (snd (onRejected error c)) = None \<and>
         pathname (snd (onRejected error c)) = js ''/login''"
  using assms by (simp add: onRejected_def Let_def removeAuthToken_def getAuthToken_def)

text \<open>
  Claim C7. A request that fails with 401 is not retried. In \<open>espn_request_with_retry\<close> the
  call answered 401 is the last call of the run, which ends by raising the status error;
  when the first call is answered 401, the run is one attempt and no sleep. In the
  frontend, the response interceptor answers a 401 by removing the stored token and the
  \<open>Authorization\<close> header, moving to the login page and rejecting the promise with the
  error; it sends no request.
\<close>

theorem unauthorized_is_not_retried:
  "(upstream k = Response 401 body \<longrightarrow>
      attempts (espn_request_with_retry upstream max_retries) \<le> k + 1 \<and>
      (attempts (espn_request_with_retry upstream max_retries) = k + 1 \<longrightarrow>
         result (espn_request_with_retry upstream max_retries) = HTTPStatusError 401)) \<and>
   (0 < max_retries \<and> upstream 0 = Response 401 body \<longrightarrow>
      espn_request_with_retry upstream max_retries =
        \<lparr>result = HTTPStatusError 401, attempts = 1, sleeps = []\<rparr>) \<and>
   (map_option response_status (response error) = Some 401 \<longrightarrow>
      (\<exists>e. fst (onRejected error c) = Rejected e \<and> error_status e = Some 401) \<and>
      getAuthToken (snd (onRejected error c)) = None \<and>
      authorization (snd (onRejected error c)) = None \<and>
      pathname (snd (onRejected error c)) = js ''/login'')"
  using no_attempt_after_401 [of 0 k upstream body max_retries "[]"]
    retry_401_first [of max_retries upstream body] onRejected_401 [of error c]
  by (simp add: espn_request_with_retry_def)

theorem unauthorized_is_not_retried_witness:
  "alwaysUnauthorized 0 = (Response 401 None :: jsstring outcome) \<and>
   (0::int) < default_max_retries \<and>
   espn_request_with_retry (alwaysUnauthorized :: nat \<Rightarrow> jsstring outcome) default_max_retries =
     \<lparr>result = HTTPStatusError 401, attempts = 1, sleeps = []\<rparr> \<and>
   map_option response_status (response unauthorizedError) = Some 401 \<and>
   getAuthToken loggedIn = Some (js ''token'') \<and>
   getAuthToken (snd (onRejected unauthorizedError loggedIn)) = None \<and>
   authorization (snd (onRejected unauthorizedError loggedIn)) = None"
proof -
  have h1: "alwaysUnauthorized 0 = (Response 401 None :: jsstring outcome)"
    by (simp add: alwaysUnauthorized_def)
  have h2: "(0::int) < default_max_retries" by (simp add: default_max_retries_def)
  have h3: "map_option response_status (response unauthorizedError) = Some 401"
    by (simp add: unauthorizedError_def)
  have h4: "getAuthToken loggedIn = Some (js ''token'')"
    by (simp add: loggedIn_def getAuthToken_def setAuthToken_def)
  show ?thesis
    using h1 h2 h3 h4
      unauthorized_is_not_retried
        [of "alwaysUnauthorized :: nat \<Rightarrow> jsstring outcome" 0 None default_max_retries
            unauthorizedError loggedIn]
    by simp
qed

section \<open>Properties of the waiver budgets\<close>

lemma foldl_spent_acc:
  "foldl (\<lambda>acc t. if countsAsSpent t then acc + bid_amount t else acc) a h =
   a + foldl (\<lambda>acc t. if countsAsSpent t then acc + bid_amount t else acc) 0 h"
proof (induction h arbitrary: a)
  case Nil
  show ?case by simp
next
  case (Cons t h)
  show ?case
    using Cons.IH [of "a + bid_amount t"] Cons.IH [of "bid_amount t"] Cons.IH [of a]
    by simp
qed

lemma spentOf_Nil: "spentOf [] = 0"
  by (simp add: spentOf_def)

lemma spentOf_Cons:
  "spentOf (t # h) = (if countsAsSpent t then bid_amount t else 0) + spentOf h"
  using foldl_spent_acc [of "bid_amount t" h] by (simp add: spentOf_def)

lemma spentOf_append: "spentOf (h1 @ h2) = spentOf h1 + spentOf h2"
  by (induction h1) (simp_all add: spentOf_Nil spentOf_Cons)

lemma spentOf_sum:
  "spentOf h = sum_list (map bid_amount (filter (\<lambda>t. transaction_type t = ADD \<and> status t = SUCCESSFUL) h))"
  by (induction h) (simp_all add: spentOf_Nil spentOf_Cons countsAsSpent_def)

lemma pending_not_spent: "status t = PENDING \<Longrightarrow> \<not> countsAsSpent t"
  by (simp add: countsAsSpent_def)

lemma spentOf_drop_pending: "spentOf (filter (\<lambda>t. status t \<noteq> PENDING) h) = spentOf h"
  by (induction h) (simp_all add: spentOf_Nil spentOf_Cons pending_not_spent)

lemma spentOf_insert_pending:
  "status t = PENDING \<Longrightarrow> spentOf (h1 @ t # h2) = spentOf (h1 @ h2)"
  by (simp add: spentOf_append spentOf_Cons pending_not_spent)

lemma balanced_ledger: "balanced (teamBudgetSummary tid name leagueTotal history recent)"
  by (simp add: balanced_def teamBudgetSummary_def currentBudget_def Let_def)

lemma find_in_set: "List.find P xs = Some x \<Longrightarrow> x \<in> set xs \<and> P x"
  by (induction xs) (auto split: if_splits)

lemma useTeamBudget_passes_through:
  assumes "snd (useTeamBudget percent budgets teamId) = Some info"
  shows "\<exists>bs b. budgets = Some bs \<and> b \<in> set bs \<and> team_id b = teamId \<and>
           fst (useTeamBudget percent budgets teamId) = Some b \<and>
           remaining info = current_budget b \<and> spent info = spent_budget b \<and>
           total info = total_budget b"
proof (cases budgets)
  case None
  then show ?thesis using assms by (simp add: useTeamBudget_def)
next
  case (Some bs)
  show ?thesis
  proof (cases "List.find (\<lambda>budget. team_id budget = teamId) bs")
    case None
    then show ?thesis using assms Some by (simp add: useTeamBudget_def)
  next
    case (Some b)
    then have "b \<in> set bs \<and> team_id b = teamId" using find_in_set [of "\<lambda>budget. team_id budget = teamId" bs b] by simp
    then show ?thesis using assms Some \<open>budgets = Some bs\<close>
      by (auto simp: useTeamBudget_def)
  qed
qed

text \<open>
  Claim C1. Every budget record the ledger produces satisfies spent + remaining = total,
  with remaining served as \<open>current_budget\<close>, spent as \<open>spent_budget\<close> and total as
  \<open>total_budget\<close>. Spent is the sum of the successful ADD bids, so a PENDING transaction
  never contributes to it: dropping the pending transactions from the history, or putting
  one in, leaves spent as it is. \<open>useTeamBudget\<close> and \<open>WaiverBudgetCard\<close> copy the three
  amounts unchanged, so for budget records that satisfy the identity the remaining, spent
  and total they display satisfy remaining = total - spent.
\<close>

theorem ledger_identity_and_display:
  "spent_budget (teamBudgetSummary tid name leagueTotal history recent) +
     current_budget (teamBudgetSummary tid name leagueTotal history recent) =
     total_budget (teamBudgetSummary tid name leagueTotal history recent) \<and>
   balanced (teamBudgetSummary tid name leagueTotal history recent) \<and>
   spent_budget (teamBudgetSummary tid name leagueTotal history recent) =
     sum_list (map bid_amount
       (filter (\<lambda>t. transaction_type t = ADD \<and> status t = SUCCESSFUL) history)) \<and>
   spentOf (filter (\<lambda>t. status t \<noteq> PENDING) history) = spentOf history \<and>
   (status t = PENDING \<longrightarrow> spentOf (h1 @ t # h2) = spentOf (h1 @ h2)) \<and>
   (list_all balanced bs \<and> snd (useTeamBudget percent (Some bs) teamId) = Some info \<longrightarrow>
      remaining info = total info - spent info) \<and>
   (balanced budget \<longrightarrow>
      shown_remaining (WaiverBudgetCard percent budget userTeamId) =
        shown_total (WaiverBudgetCard percent budget userTeamId) -
        shown_spent (WaiverBudgetCard percent budget userTeamId))"
proof -
  have a: "list_all balanced bs \<and> snd (useTeamBudget percent (Some bs) teamId) = Some info \<longrightarrow>
      remaining info = total info - spent info"
  proof
    assume h: "list_all balanced bs \<and> snd (useTeamBudget percent (Some bs) teamId) = Some info"
    then obtain b where "b \<in> set bs" and
      "remaining info = current_budget b \<and> spent info = spent_budget b \<and>
       total info = total_budget b"
      using useTeamBudget_passes_through [of percent "Some bs" teamId info] by auto
    moreover have "balanced b" using h \<open>b \<in> set bs\<close> by (simp add: list_all_iff)
    ultimately show "remaining info = total info - spent info"
      by (simp add: balanced_def)
  qed
  have b: "spent_budget (teamBudgetSummary tid name leagueTotal history recent) = spentOf history"
    by (simp add: teamBudgetSummary_def currentBudget_def Let_def)
  show ?thesis
    using a balanced_ledger [of tid name leagueTotal history recent]
      balanced_ledger [of tid name leagueTotal history recent, unfolded balanced_def]
      spentOf_sum [of history]
      spentOf_drop_pending [of history] spentOf_insert_pending [of t h1 h2]
    by (simp add: b WaiverBudgetCard_def balanced_def)
qed


lemma sampleBudget_eval:
  "sampleBudget =
     \<lparr>team_id = 1, team_name = js ''Rogues'', current_budget = 85, spent_budget = 15,
      total_budget = 100, recent_transactions = take 3 sampleHistory\<rparr>"
  by (simp add: sampleBudget_def teamBudgetSummary_def currentBudget_def spentOf_def
      sampleHistory_def pendingBid_def countsAsSpent_def Let_def)

theorem ledger_identity_and_display_witness:
  "status pendingBid = PENDING \<and>
   spentOf (take 1 sampleHistory @ pendingBid # drop 2 sampleHistory) =
     spentOf (take 1 sampleHistory @ drop 2 sampleHistory) \<and>
   list_all balanced [sampleBudget] \<and>
   snd (useTeamBudget percentExact (Some [sampleBudget]) 1) =
     Some \<lparr>remaining = 85, spent = 15, total = 100,
           spentPercentage = Some 15, remainingPercentage = Some 85\<rparr> \<and>
   balanced sampleBudget \<and>
   shown_remaining (WaiverBudgetCard percentExact sampleBudget (Some 1)) = 85 \<and>
   shown_total (WaiverBudgetCard percentExact sampleBudget (Some 1)) -
     shown_spent (WaiverBudgetCard percentExact sampleBudget (Some 1)) = 85"
proof -
  have h1: "status pendingBid = PENDING" by (simp add: pendingBid_def)
  have h2: "balanced sampleBudget" by (simp add: sampleBudget_eval balanced_def)
  have h3: "snd (useTeamBudget percentExact (Some [sampleBudget]) 1) =
     Some \<lparr>remaining = 85, spent = 15, total = 100,
           spentPercentage = Some 15, remainingPercentage = Some 85\<rparr>"
    by (simp add: sampleBudget_eval useTeamBudget_def percentExact_def)
  have h4: "shown_remaining (WaiverBudgetCard percentExact sampleBudget (Some 1)) = 85"
    by (simp add: sampleBudget_eval WaiverBudgetCard_def)
  show ?thesis
    using h1 h2 h3 h4
      ledger_identity_and_display [of 1 "js ''Rogues''" 100 sampleHistory "take 3 sampleHistory" pendingBid
             "take 1 sampleHistory" "drop 2 sampleHistory" "[sampleBudget]" percentExact 1
             "\<lparr>remaining = 85, spent = 15, total = 100,
               spentPercentage = Some 15, remainingPercentage = Some 85\<rparr>"
             sampleBudget "Some 1"]
    by simp
qed

section \<open>Properties of the trade evaluation\<close>

lemma validTrade_iff:
  "validTrade st req =
     (give_players req \<noteq> [] \<and> receive_players req \<noteq> [] \<and>
      set (give_players req) \<inter> set (receive_players req) = {} \<and>
      set (give_players req) \<subseteq> set (activeRoster st (proposing_team_id req)) \<and>
      set (receive_players req) \<subseteq> set (activeRoster st (receiving_team_id req)))"
  by (auto simp: validTrade_def list_all_iff)

lemma validTrade_swapSides: "validTrade st (swapSides req) = validTrade st req"
  by (auto simp: validTrade_iff swapSides_def)

lemma evaluate_valid:
  "validTrade st req \<Longrightarrow>
   evaluate st req =
     \<lparr>is_valid = True,
      fairness_score = Some (clamp 0 100 (100 - penaltyWeight st *
         (\<bar>totalValue st (receive_players req) - totalValue st (give_players req)\<bar> /
          max (max (totalValue st (give_players req)) (totalValue st (receive_players req)))
              (epsilon st)))),
      value_difference = Some (totalValue st (receive_players req) - totalValue st (give_players req))\<rparr>"
  by (simp add: evaluate_def Let_def)

lemma evaluate_invalid:
  "\<not> validTrade st req \<Longrightarrow>
   evaluate st req = \<lparr>is_valid = False, fairness_score = None, value_difference = None\<rparr>"
  by (simp add: evaluate_def)

lemma evaluate_swapSides:
  assumes "validTrade st req"
  shows "\<exists>f d. evaluate st req = \<lparr>is_valid = True, fairness_score = Some f, value_difference = Some d\<rparr> \<and>
               evaluate st (swapSides req) =
                 \<lparr>is_valid = True, fairness_score = Some f, value_difference = Some (- d)\<rparr>"
proof -
  have v: "validTrade st (swapSides req)" using assms by (simp add: validTrade_swapSides)
  have g: "give_players (swapSides req) = receive_players req"
    and r: "receive_players (swapSides req) = give_players req"
    by (simp_all add: swapSides_def)
  show ?thesis
    unfolding evaluate_valid [OF assms] evaluate_valid [OF v] g r
    by (simp add: abs_minus_commute max.commute)
qed

lemma evaluate_equal_totals:
  assumes "validTrade st req"
    and "totalValue st (give_players req) = totalValue st (receive_players req)"
  shows "evaluate st req =
           \<lparr>is_valid = True, fairness_score = Some 100, value_difference = Some 0\<rparr>"
  unfolding evaluate_valid [OF assms(1)] using assms(2) by (simp add: clamp_def)

text \<open>
  Claim C3. For every valid trade (two non-empty, disjoint player lists, each player on
  the roster of the team that gives it), evaluating the trade with the give side and the
  receive side swapped yields a fairness score at the same distance from 100 (it is the
  same score) and the negated value difference. Epsilon is positive, as a divisor guard
  has to be.
\<close>

theorem trade_side_swap_symmetry:
  "give_players req \<noteq> [] \<and> receive_players req \<noteq> [] \<and>
   set (give_players req) \<inter> set (receive_players req) = {} \<and>
   set (give_players req) \<subseteq> set (activeRoster st (proposing_team_id req)) \<and>
   set (receive_players req) \<subseteq> set (activeRoster st (receiving_team_id req)) \<and>
   0 < epsilon st \<longrightarrow>
     (\<exists>f f' d. evaluate st req =
                  \<lparr>is_valid = True, fairness_score = Some f, value_difference = Some d\<rparr> \<and>
                evaluate st (swapSides req) =
                  \<lparr>is_valid = True, fairness_score = Some f', value_difference = Some (- d)\<rparr> \<and>
                \<bar>100 - f'\<bar> = \<bar>100 - f\<bar>)"
  using evaluate_swapSides [of st req] by (auto simp: validTrade_iff)

text \<open>
  Claim C4. For every valid trade in which the total value given equals the total value
  received, the evaluation returns a fairness score of exactly 100 and a value difference
  of 0.
\<close>

theorem trade_equal_totals_is_fair:
  "give_players req \<noteq> [] \<and> receive_players req \<noteq> [] \<and>
   set (give_players req) \<inter> set (receive_players req) = {} \<and>
   set (give_players req) \<subseteq> set (activeRoster st (proposing_team_id req)) \<and>
   set (receive_players req) \<subseteq> set (activeRoster st (receiving_team_id req)) \<and>
   0 < epsilon st \<and>
   totalValue st (give_players req) = totalValue st (receive_players req) \<longrightarrow>
     evaluate st req = \<lparr>is_valid = True, fairness_score = Some 100, value_difference = Some 0\<rparr>"
  using evaluate_equal_totals [of st req] by (simp add: validTrade_iff)

text \<open>
  Claim C5. A trade whose give list or receive list is empty, whose lists share a player,
  or which names a player who is not on the active roster of the team that gives it, is
  answered with \<open>is_valid = false\<close> and with neither a fairness score nor a value
  difference.
\<close>

theorem invalid_trade_gets_no_score:
  "give_players req = [] \<or> receive_players req = [] \<or>
   set (give_players req) \<inter> set (receive_players req) \<noteq> {} \<or>
   \<not> set (give_players req) \<subseteq> set (activeRoster st (proposing_team_id req)) \<or>
   \<not> set (receive_players req) \<subseteq> set (activeRoster st (receiving_team_id req)) \<longrightarrow>
     evaluate st req = \<lparr>is_valid = False, fairness_score = None, value_difference = None\<rparr>"
  using evaluate_invalid [of st req] by (auto simp: validTrade_iff)


lemmas sample_defs = sampleLeague_def sampleTrade_def

theorem trade_side_swap_symmetry_witness:
  "give_players (sampleTrade [1] [3]) \<noteq> [] \<and> receive_players (sampleTrade [1] [3]) \<noteq> [] \<and>
   set (give_players (sampleTrade [1] [3])) \<inter> set (receive_players (sampleTrade [1] [3])) = {} \<and>
   set (give_players (sampleTrade [1] [3]))
     \<subseteq> set (activeRoster sampleLeague (proposing_team_id (sampleTrade [1] [3]))) \<and>
   set (receive_players (sampleTrade [1] [3]))
     \<subseteq> set (activeRoster sampleLeague (receiving_team_id (sampleTrade [1] [3]))) \<and>
   0 < epsilon sampleLeague \<and>
   evaluate sampleLeague (sampleTrade [1] [3]) =
     \<lparr>is_valid = True, fairness_score = Some (300 / 7), value_difference = Some 40\<rparr> \<and>
   is_valid (evaluate sampleLeague (swapSides (sampleTrade [1] [3]))) \<and>
   value_difference (evaluate sampleLeague (swapSides (sampleTrade [1] [3]))) = Some (- 40)"
proof -
  have h: "give_players (sampleTrade [1] [3]) \<noteq> [] \<and> receive_players (sampleTrade [1] [3]) \<noteq> [] \<and>
   set (give_players (sampleTrade [1] [3])) \<inter> set (receive_players (sampleTrade [1] [3])) = {} \<and>
   set (give_players (sampleTrade [1] [3]))
     \<subseteq> set (activeRoster sampleLeague (proposing_team_id (sampleTrade [1] [3]))) \<and>
   set (receive_players (sampleTrade [1] [3]))
     \<subseteq> set (activeRoster sampleLeague (receiving_team_id (sampleTrade [1] [3]))) \<and>
   0 < epsilon sampleLeague"
    by (simp add: sample_defs)
  have e: "evaluate sampleLeague (sampleTrade [1] [3]) =
     \<lparr>is_valid = True, fairness_score = Some (300 / 7), value_difference = Some 40\<rparr>"
    by (simp add: sample_defs evaluate_def validTrade_def totalValue_def clamp_def Let_def)
  from h trade_side_swap_symmetry [of "sampleTrade [1] [3]" sampleLeague]
  obtain f f' d where
    1: "evaluate sampleLeague (sampleTrade [1] [3]) =
          \<lparr>is_valid = True, fairness_score = Some f, value_difference = Some d\<rparr>" and
    2: "evaluate sampleLeague (swapSides (sampleTrade [1] [3])) =
          \<lparr>is_valid = True, fairness_score = Some f', value_difference = Some (- d)\<rparr>"
    by blast
  from 1 e have "d = 40" by simp
  with 2 h e show ?thesis by simp
qed

theorem trade_equal_totals_is_fair_witness:
  "give_players (sampleTrade [2] [4]) \<noteq> [] \<and> receive_players (sampleTrade [2] [4]) \<noteq> [] \<and>
   set (give_players (sampleTrade [2] [4])) \<inter> set (receive_players (sampleTrade [2] [4])) = {} \<and>
   set (give_players (sampleTrade [2] [4]))
     \<subseteq> set (activeRoster sampleLeague (proposing_team_id (sampleTrade [2] [4]))) \<and>
   set (receive_players (sampleTrade [2] [4]))
     \<subseteq> set (activeRoster sampleLeague (receiving_team_id (sampleTrade [2] [4]))) \<and>
   0 < epsilon sampleLeague \<and>
   totalValue sampleLeague (give_players (sampleTrade [2] [4])) = 50 \<and>
   totalValue sampleLeague (receive_players (sampleTrade [2] [4])) = 50 \<and>
   evaluate sampleLeague (sampleTrade [2] [4]) =
     \<lparr>is_valid = True, fairness_score = Some 100, value_difference = Some 0\<rparr>"
proof -
  have h: "give_players (sampleTrade [2] [4]) \<noteq> [] \<and> receive_players (sampleTrade [2] [4]) \<noteq> [] \<and>
   set (give_players (sampleTrade [2] [4])) \<inter> set (receive_players (sampleTrade [2] [4])) = {} \<and>
   set (give_players (sampleTrade [2] [4]))
     \<subseteq> set (activeRoster sampleLeague (proposing_team_id (sampleTrade [2] [4]))) \<and>
   set (receive_players (sampleTrade [2] [4]))
     \<subseteq> set (activeRoster sampleLeague (receiving_team_id (sampleTrade [2] [4]))) \<and>
   0 < epsilon sampleLeague"
    by (simp add: sample_defs)
  have t: "totalValue sampleLeague (give_players (sampleTrade [2] [4])) = 50 \<and>
           totalValue sampleLeague (receive_players (sampleTrade [2] [4])) = 50"
    by (simp add: sample_defs totalValue_def)
  show ?thesis
    using h t trade_equal_totals_is_fair [of "sampleTrade [2] [4]" sampleLeague] by simp
qed

theorem invalid_trade_gets_no_score_witness:
  "set (give_players (sampleTrade [1] [1])) \<inter> set (receive_players (sampleTrade [1] [1])) \<noteq> {} \<and>
   evaluate sampleLeague (sampleTrade [1] [1]) =
     \<lparr>is_valid = False, fairness_score = None, value_difference = None\<rparr> \<and>
   give_players (sampleTrade [] [3]) = [] \<and>
   evaluate sampleLeague (sampleTrade [] [3]) =
     \<lparr>is_valid = False, fairness_score = None, value_difference = None\<rparr> \<and>
   \<not> set (give_players (sampleTrade [3] [4]))
        \<subseteq> set (activeRoster sampleLeague (proposing_team_id (sampleTrade [3] [4]))) \<and>
   evaluate sampleLeague (sampleTrade [3] [4]) =
     \<lparr>is_valid = False, fairness_score = None, value_difference = None\<rparr>"
proof -
  have h1: "set (give_players (sampleTrade [1] [1])) \<inter> set (receive_players (sampleTrade [1] [1])) \<noteq> {}"
    by (simp add: sample_defs)
  have h2: "give_players (sampleTrade [] [3]) = []"
    by (simp add: sample_defs)
  have h3: "\<not> set (give_players (sampleTrade [3] [4]))
        \<subseteq> set (activeRoster sampleLeague (proposing_team_id (sampleTrade [3] [4])))"
    by (simp add: sample_defs)
  show ?thesis
    using h1 h2 h3 invalid_trade_gets_no_score [of "sampleTrade [1] [1]" sampleLeague]
      invalid_trade_gets_no_score [of "sampleTrade [] [3]" sampleLeague] invalid_trade_gets_no_score [of "sampleTrade [3] [4]" sampleLeague]
    by blast
qed


end
